theory Spec2Isabelle
  imports Main "HOL-Library.Word"
begin

section \<open>JavaScript strings\<close>

text \<open>
  A JavaScript string is a sequence of UTF-16 code units; \<open>s.length\<close> counts code units
  and \<open>===\<close> on two strings compares the sequences. A string literal of the source is
  written \<open>js ''...''\<close>; all literals of the component are ASCII.
\<close>

type_synonym jsstring = "16 word list"

definition js :: "string \<Rightarrow> jsstring" where
  "js s = map (\<lambda>c. of_nat (of_char c)) s"

text \<open>
  \<open>String.prototype.trim\<close> removes the ECMAScript WhiteSpace and LineTerminator code
  points from both ends: TAB, LF, VT, FF, CR, SPACE, NBSP, U+1680, U+2000..U+200A,
  U+2028, U+2029, U+202F, U+205F, U+3000 and U+FEFF.
\<close>

definition isWhiteSpace :: "16 word \<Rightarrow> bool" where
  "isWhiteSpace u \<longleftrightarrow>
     (0x0009 \<le> u \<and> u \<le> 0x000D) \<or> u = 0x0020 \<or> u = 0x00A0 \<or> u = 0x1680 \<or>
     (0x2000 \<le> u \<and> u \<le> 0x200A) \<or> u = 0x2028 \<or> u = 0x2029 \<or> u = 0x202F \<or>
     u = 0x205F \<or> u = 0x3000 \<or> u = 0xFEFF"

definition trim :: "jsstring \<Rightarrow> jsstring" where
  "trim s = rev (dropWhile isWhiteSpace (rev (dropWhile isWhiteSpace s)))"

text \<open>
  \<open>String.prototype.toLowerCase\<close>, as far as \<open>validateMail\<close> can observe it. The
  result is only tested for emptiness and against a pattern whose character classes are
  all ASCII. The Unicode lower-case mapping sends into ASCII exactly the letters A..Z,
  the Kelvin sign U+212A (to k) and U+0130 (to i followed by U+0307); those are mapped as
  the built-in maps them. Every other code unit is kept: the built-in leaves it or maps
  it to code units outside ASCII, which the pattern rejects like the unit itself.
\<close>

definition lowerUnit :: "16 word \<Rightarrow> jsstring" where
  "lowerUnit u =
     (if 0x41 \<le> u \<and> u \<le> 0x5A then [u + 0x20]
      else if u = 0x212A then [0x6B]
      else if u = 0x0130 then [0x69, 0x0307]
      else [u])"

definition toLowerCase :: "jsstring \<Rightarrow> jsstring" where
  "toLowerCase s = concat (map lowerUnit s)"

section \<open>Regular expressions\<close>

text \<open>
  The two patterns of the component use character classes, concatenation, \<open>+\<close> and
  \<open>{2,}\<close>, anchored by \<open>^\<close> and \<open>$\<close>, with no flags. For such a pattern
  \<open>RegExp.prototype.test\<close> answers whether the whole string belongs to the language of
  the pattern; \<open>test\<close> decides that by derivatives. A class is a list of inclusive
  ranges of code units.
\<close>

datatype RegExp =
    Never
  | Empty
  | Class "(16 word \<times> 16 word) list"
  | Seq RegExp RegExp
  | Alt RegExp RegExp
  | Star RegExp

definition inClass :: "(16 word \<times> 16 word) list \<Rightarrow> 16 word \<Rightarrow> bool" where
  "inClass rs u = list_ex (\<lambda>(lo, hi). lo \<le> u \<and> u \<le> hi) rs"

fun nullable :: "RegExp \<Rightarrow> bool" where
  "nullable Never = False"
| "nullable Empty = True"
| "nullable (Class rs) = False"
| "nullable (Seq r s) = (nullable r \<and> nullable s)"
| "nullable (Alt r s) = (nullable r \<or> nullable s)"
| "nullable (Star r) = True"

fun deriv :: "16 word \<Rightarrow> RegExp \<Rightarrow> RegExp" where
  "deriv u Never = Never"
| "deriv u Empty = Never"
| "deriv u (Class rs) = (if inClass rs u then Empty else Never)"
| "deriv u (Seq r s) =
     (if nullable r then Alt (Seq (deriv u r) s) (deriv u s) else Seq (deriv u r) s)"
| "deriv u (Alt r s) = Alt (deriv u r) (deriv u s)"
| "deriv u (Star r) = Seq (deriv u r) (Star r)"

fun test :: "RegExp \<Rightarrow> jsstring \<Rightarrow> bool" where
  "test r [] = nullable r"
| "test r (u # us) = test (deriv u r) us"

definition OneOrMore :: "RegExp \<Rightarrow> RegExp" where
  "OneOrMore r = Seq r (Star r)"

definition TwoOrMore :: "RegExp \<Rightarrow> RegExp" where
  "TwoOrMore r = Seq r (Seq r (Star r))"

definition Lit :: "16 word \<Rightarrow> RegExp" where
  "Lit u = Class [(u, u)]"

text \<open>
  \<^verbatim>\<open>/^[a-zA-Z0-9._%+-]+@[a-zA-Z0-9.-]+\.[a-zA-Z]{2,}$/\<close>, written twice in the source
  (in \<open>isFormValid\<close> and in \<open>validateMail\<close>) with the same text.
  Code units: a..z 0x61..0x7A, A..Z 0x41..0x5A, 0..9 0x30..0x39, \<open>.\<close> 0x2E, \<open>_\<close> 0x5F,
  \<open>%\<close> 0x25, \<open>+\<close> 0x2B, \<open>-\<close> 0x2D, \<open>@\<close> 0x40.
\<close>

definition emailRegex :: RegExp where
  "emailRegex =
     Seq (OneOrMore (Class [(0x61, 0x7A), (0x41, 0x5A), (0x30, 0x39),
                            (0x2E, 0x2E), (0x5F, 0x5F), (0x25, 0x25), (0x2B, 0x2B), (0x2D, 0x2D)]))
    (Seq (Lit 0x40)
    (Seq (OneOrMore (Class [(0x61, 0x7A), (0x41, 0x5A), (0x30, 0x39), (0x2E, 0x2E), (0x2D, 0x2D)]))
    (Seq (Lit 0x2E)
         (TwoOrMore (Class [(0x61, 0x7A), (0x41, 0x5A)])))))"

section \<open>Data of the signup component\<close>

text \<open>
  The interface \<open>Userdata\<close> and the record passed to \<open>addContact\<close>, with the fields
  that \<open>signup.component.ts\<close> writes in them. The component is declared last, so the
  plain names \<open>name\<close>, \<open>email\<close> and \<open>password\<close> are its input fields.
\<close>

record Userdata =
  name :: jsstring
  email :: jsstring
  password :: jsstring
  confirmPassword :: jsstring

record Contact =
  name :: jsstring
  email :: jsstring
  phone :: jsstring

text \<open>
  The fields of \<open>SignupComponent\<close>, in the order of the class. The last field,
  \<open>checkLog\<close>, is not in the class: it is a history variable that records every call
  of the callback \<open>addFieldIfInvalid\<close> as the pair of its arguments
  \<open>(fieldName, condition)\<close>, most recent call first. No operation reads it.
\<close>

record SignupComponent =
  invalidFields :: "jsstring list"
  privacyAccepted :: bool
  showPrivacy :: bool
  newUserData :: Userdata
  name :: jsstring
  email :: jsstring
  password :: jsstring
  passwordConfirm :: jsstring
  error :: jsstring
  privacyError :: bool
  showPrivacyError :: bool
  passwordVisible :: bool
  confirmPasswordVisible :: bool
  passwordEntered :: bool
  confirmPasswordEntered :: bool
  checkLog :: "(jsstring \<times> bool) list"

definition emptyUserdata :: Userdata where
  "emptyUserdata =
     \<lparr>Userdata.name = [], Userdata.email = [], Userdata.password = [],
      Userdata.confirmPassword = []\<rparr>"

text \<open>The component as its field initialisers leave it.\<close>

definition initialComponent :: SignupComponent where
  "initialComponent =
     \<lparr>invalidFields = [], privacyAccepted = False, showPrivacy = False,
      newUserData = emptyUserdata, name = [], email = [], password = [],
      passwordConfirm = [], error = [], privacyError = False, showPrivacyError = False,
      passwordVisible = False, confirmPasswordVisible = False, passwordEntered = False,
      confirmPasswordEntered = False, checkLog = []\<rparr>"

text \<open>
  The parameter type \<open>'password' | 'confirmPassword'\<close> of \<open>onPasswordInput\<close> and
  \<open>togglePasswordVisibility\<close>.
\<close>

datatype PasswordField = PasswordF | ConfirmPasswordF

section \<open>Methods that only touch the component\<close>

definition onPasswordInput :: "PasswordField \<Rightarrow> SignupComponent \<Rightarrow> SignupComponent" where
  "onPasswordInput field c =
     (if field = PasswordF then
        (let c1 = c\<lparr>passwordEntered := length (password c) > 0\<rparr>
         in if \<not> passwordEntered c1 then c1\<lparr>passwordVisible := False\<rparr> else c1)
      else
        (let c1 = c\<lparr>confirmPasswordEntered := length (passwordConfirm c) > 0\<rparr>
         in if \<not> confirmPasswordEntered c1 then c1\<lparr>confirmPasswordVisible := False\<rparr>
            else c1))"

definition togglePasswordVisibility :: "PasswordField \<Rightarrow> SignupComponent \<Rightarrow> SignupComponent" where
  "togglePasswordVisibility field c =
     (if field = PasswordF \<and> passwordEntered c then
        c\<lparr>passwordVisible := \<not> passwordVisible c\<rparr>
      else if field = ConfirmPasswordF \<and> confirmPasswordEntered c then
        c\<lparr>confirmPasswordVisible := \<not> confirmPasswordVisible c\<rparr>
      else c)"

text \<open>The local constant \<open>isEmailValid\<close> of the getter \<open>isFormValid\<close>, and the getter.\<close>

definition isEmailValid :: "SignupComponent \<Rightarrow> bool" where
  "isEmailValid c = test emailRegex (email c)"

definition isFormValid :: "SignupComponent \<Rightarrow> bool" where
  "isFormValid c \<longleftrightarrow>
     length (trim (name c)) \<ge> 2 \<and>
     isEmailValid c \<and>
     length (password c) \<ge> 6 \<and>
     length (passwordConfirm c) \<ge> 6"

definition autoValidatePrivacyIfReady :: "SignupComponent \<Rightarrow> SignupComponent" where
  "autoValidatePrivacyIfReady c =
     (let allInputsValid = (length (invalidFields c) = 0 \<and> isFormValid c)
      in c\<lparr>showPrivacyError := (allInputsValid \<and> \<not> privacyAccepted c)\<rparr>)"

definition validatePrivacy :: "SignupComponent \<Rightarrow> SignupComponent" where
  "validatePrivacy c = autoValidatePrivacyIfReady c"

text \<open>
  The arrow function \<open>addFieldIfInvalid\<close> that \<open>validateForm\<close> creates and hands to
  the four field validators. It closes over \<open>this\<close>; here it takes and returns the
  component, and the validators call it directly. \<open>push\<close> appends, \<open>filter\<close> keeps
  the order of the remaining names. The first line is the history variable.
\<close>

definition addFieldIfInvalid :: "bool \<Rightarrow> jsstring \<Rightarrow> SignupComponent \<Rightarrow> SignupComponent" where
  "addFieldIfInvalid condition fieldName c0 =
     (let c = c0\<lparr>checkLog := (fieldName, condition) # checkLog c0\<rparr>
      in if condition \<and> fieldName \<notin> set (invalidFields c) then
           c\<lparr>invalidFields := invalidFields c @ [fieldName]\<rparr>
         else if \<not> condition then
           c\<lparr>invalidFields := filter (\<lambda>f. f \<noteq> fieldName) (invalidFields c)\<rparr>
         else c)"

text \<open>
  The field validators. A string is falsy exactly when it is empty, so \<open>!this.name\<close>
  is \<open>name c = []\<close>. The input fields are always strings, so \<open>this.email?.\<close> always
  takes the call.
\<close>

definition validateName :: "SignupComponent \<Rightarrow> SignupComponent" where
  "validateName c =
     (let isInvalid = (name c = [] \<or> length (trim (name c)) < 2)
      in addFieldIfInvalid isInvalid (js ''name'') c)"

definition validateMail :: "SignupComponent \<Rightarrow> SignupComponent" where
  "validateMail c =
     (let email' = toLowerCase (trim (email c));
          isInvalid = (email' = [] \<or> \<not> test emailRegex email')
      in addFieldIfInvalid isInvalid (js ''email'') c)"

definition validateConfirmedPassword :: "SignupComponent \<Rightarrow> SignupComponent" where
  "validateConfirmedPassword c =
     (let isInvalid = (passwordConfirm c \<noteq> password c)
      in addFieldIfInvalid isInvalid (js ''confirmPassword'') c)"

text \<open>
  \<open>validateForm\<close> and \<open>validatePassword\<close> call each other: \<open>validateForm('password')\<close>
  calls \<open>validatePassword\<close>, which calls \<open>validateForm('confirmPassword')\<close> when
  \<open>newUserData.confirmPassword\<close> is a non-empty string. The four \<open>if\<close> statements of
  \<open>validateForm\<close> run in sequence on the same argument.
\<close>

function validateForm :: "jsstring \<Rightarrow> SignupComponent \<Rightarrow> SignupComponent"
  and validatePassword :: "SignupComponent \<Rightarrow> SignupComponent" where
  "validateForm field c =
     (let c1 = (if field = js ''name'' then validateName c else c);
          c2 = (if field = js ''email'' then validateMail c1 else c1);
          c3 = (if field = js ''password'' then validatePassword c2 else c2);
          c4 = (if field = js ''confirmPassword'' then validateConfirmedPassword c3 else c3)
      in autoValidatePrivacyIfReady c4)"
| "validatePassword c =
     (let isInvalid = (password c = [] \<or> length (password c) < 6);
          c1 = addFieldIfInvalid isInvalid (js ''password'') c
      in if Userdata.confirmPassword (newUserData c1) \<noteq> []
         then validateForm (js ''confirmPassword'') c1 else c1)"
  by pat_completeness auto
termination
  by (relation "measure (\<lambda>x. case x of
          Inl (field, c) \<Rightarrow> (if field = js ''password'' then 2 else 0)
        | Inr c \<Rightarrow> Suc 0)")
     (auto simp: js_def)

declare validateForm.simps [simp del] validatePassword.simps [simp del]

definition closePrivacy :: "SignupComponent \<Rightarrow> SignupComponent" where
  "closePrivacy c = c\<lparr>showPrivacy := False\<rparr>"

section \<open>The injected services\<close>

text \<open>
  \<open>AuthService\<close>, \<open>ContactService\<close>, \<open>FeedbackServiceService\<close> and the router are
  injected; their code is not part of the component. What the component reads and writes
  of them is \<open>contactService.contactList\<close> and \<open>authService.UserLoggedIn\<close>; the type
  \<open>'u\<close> is that of \<open>UserLoggedIn\<close> and of the result of \<open>getUsername\<close>.
\<close>

record 'u World =
  contactList :: "Contact list"
  UserLoggedIn :: 'u

text \<open>A value thrown by a service: an error object with its \<open>message\<close>.\<close>

datatype Thrown = Thrown (message: jsstring)

text \<open>
  The behaviour of the three service methods whose outcome \<open>onRegister\<close> depends on,
  taken as parameters. Each may change the services' data; \<open>register\<close> and
  \<open>addContact\<close> resolve (\<open>None\<close>) or throw, \<open>getUsername\<close> returns a value or throws.
\<close>

record 'u Services =
  register :: "jsstring \<Rightarrow> jsstring \<Rightarrow> jsstring \<Rightarrow> 'u World \<Rightarrow> Thrown option \<times> 'u World"
  addContact :: "Contact \<Rightarrow> 'u World \<Rightarrow> Thrown option \<times> 'u World"
  getUsername :: "jsstring \<Rightarrow> 'u World \<Rightarrow> Thrown + 'u"

text \<open>
  Every call that leaves the component is recorded, with its arguments, in the order in
  which it is made. \<open>Navigate\<close> takes the array of path segments given to
  \<open>router.navigate\<close>, \<open>SetItem\<close> is \<open>localStorage.setItem\<close>.
\<close>

datatype Call =
    CallRegister jsstring jsstring jsstring
  | CallAddContact Contact
  | CallGetUsername jsstring
  | Navigate "jsstring list"
  | ShowFeedback jsstring
  | SetItem jsstring jsstring

record 'u System =
  comp :: SignupComponent
  world :: "'u World"
  calls :: "Call list"

definition call :: "Call \<Rightarrow> 'u System \<Rightarrow> 'u System" where
  "call k s = s\<lparr>calls := calls s @ [k]\<rparr>"

section \<open>Registration\<close>

definition checkIfMailinUseInContact :: "'u System \<Rightarrow> bool" where
  "checkIfMailinUseInContact s =
     list_ex (\<lambda>k. Contact.email k = email (comp s)) (contactList (world s))"

text \<open>
  The body of the \<open>try\<close> block of \<open>onRegister\<close>. The result is \<open>Some e\<close> when a
  service throws \<open>e\<close>, with the system as it is at that point, and \<open>None\<close> when the
  block runs to its end.

  The method is suspended at \<open>await register\<close> and, when the contact is written, at
  \<open>await addContact\<close>. While it is suspended the form and other handlers run and may
  write the component: \<open>whileRegister\<close> is what they do to the component until
  \<open>register\<close> has settled, \<open>whileAddContact\<close> the same for \<open>addContact\<close>. What
  happens to the services' data meanwhile is part of the world that the service returns.
  The arguments of \<open>register\<close> are read at the call; the duplicate check, the contact
  record and the argument of \<open>getUsername\<close> read \<open>this.email\<close> and \<open>this.name\<close>
  from the component as it is when they run.
\<close>

definition onRegister_try ::
  "'u Services \<Rightarrow> (SignupComponent \<Rightarrow> SignupComponent) \<Rightarrow> (SignupComponent \<Rightarrow> SignupComponent)
     \<Rightarrow> 'u System \<Rightarrow> Thrown option \<times> 'u System" where
  "onRegister_try sv whileRegister whileAddContact s =
     (let s1 = call (CallRegister (email (comp s)) (password (comp s)) (name (comp s))) s;
          (r1, w1) = register sv (email (comp s)) (password (comp s)) (name (comp s)) (world s1);
          s2 = s1\<lparr>comp := whileRegister (comp s1), world := w1\<rparr>
      in case r1 of
           Some e \<Rightarrow> (Some e, s2)
         | None \<Rightarrow>
            (let (r2, s4) =
                   (if \<not> checkIfMailinUseInContact s2 then
                      (let k = \<lparr>Contact.name = name (comp s2), Contact.email = email (comp s2),
                                Contact.phone = js ''Not existing yet''\<rparr>;
                           s3 = call (CallAddContact k) s2;
                           (r, w3) = addContact sv k (world s3)
                       in (r, s3\<lparr>comp := whileAddContact (comp s3), world := w3\<rparr>))
                    else (None, s2))
             in case r2 of
                  Some e \<Rightarrow> (Some e, s4)
                | None \<Rightarrow>
                   (let s5 = call (CallGetUsername (email (comp s4))) s4
                    in case getUsername sv (email (comp s4)) (world s5) of
                         Inl e \<Rightarrow> (Some e, s5)
                       | Inr u \<Rightarrow>
                          (let s6 = s5\<lparr>world := (world s5)\<lparr>UserLoggedIn := u\<rparr>\<rparr>;
                               s7 = call (Navigate [js ''/login'']) s6;
                               s8 = call (ShowFeedback (js ''Registration successful'')) s7
                           in (None, s8)))))"

definition onRegister ::
  "'u Services \<Rightarrow> (SignupComponent \<Rightarrow> SignupComponent) \<Rightarrow> (SignupComponent \<Rightarrow> SignupComponent)
     \<Rightarrow> 'u System \<Rightarrow> 'u System" where
  "onRegister sv whileRegister whileAddContact s =
     (if password (comp s) = passwordConfirm (comp s) then
        (case onRegister_try sv whileRegister whileAddContact s of
           (None, s') \<Rightarrow> s'
         | (Some err, s') \<Rightarrow> s'\<lparr>comp := (comp s')\<lparr>error := message err\<rparr>\<rparr>)
      else s)"

definition goToAnotherPage :: "jsstring \<Rightarrow> 'u System \<Rightarrow> 'u System" where
  "goToAnotherPage target s = call (Navigate [target]) s"

definition onBackClick :: "'u System \<Rightarrow> 'u System" where
  "onBackClick s =
     call (Navigate [js ''/'']) (call (SetItem (js ''skipLoginAnimation'') (js ''true'')) s)"

section \<open>Runs of the component\<close>

text \<open>
  What can write the component without leaving it: the methods that only touch the
  component, the writes of the form to the four input fields and to the checkbox, and
  the assignment \<open>this.error = err.message\<close> of a call of \<open>onRegister\<close> that settles
  while another one is suspended.
\<close>

datatype LocalOp =
    OnPasswordInput PasswordField
  | ValidatePrivacy
  | TogglePasswordVisibility PasswordField
  | ValidateForm jsstring
  | AutoValidatePrivacyIfReady
  | ClosePrivacy
  | InputName jsstring
  | InputEmail jsstring
  | InputPassword jsstring
  | InputPasswordConfirm jsstring
  | InputPrivacyAccepted bool
  | ErrorWrite jsstring

fun applyOp :: "SignupComponent \<Rightarrow> LocalOp \<Rightarrow> SignupComponent" where
  "applyOp c (OnPasswordInput field) = onPasswordInput field c"
| "applyOp c ValidatePrivacy = validatePrivacy c"
| "applyOp c (TogglePasswordVisibility field) = togglePasswordVisibility field c"
| "applyOp c (ValidateForm field) = validateForm field c"
| "applyOp c AutoValidatePrivacyIfReady = autoValidatePrivacyIfReady c"
| "applyOp c ClosePrivacy = closePrivacy c"
| "applyOp c (InputName v) = c\<lparr>name := v\<rparr>"
| "applyOp c (InputEmail v) = c\<lparr>email := v\<rparr>"
| "applyOp c (InputPassword v) = c\<lparr>password := v\<rparr>"
| "applyOp c (InputPasswordConfirm v) = c\<lparr>passwordConfirm := v\<rparr>"
| "applyOp c (InputPrivacyAccepted b) = c\<lparr>privacyAccepted := b\<rparr>"
| "applyOp c (ErrorWrite m) = c\<lparr>error := m\<rparr>"

definition applyOps :: "LocalOp list \<Rightarrow> SignupComponent \<Rightarrow> SignupComponent" where
  "applyOps ops c = foldl applyOp c ops"

text \<open>
  The operations on a system: a local operation, a call of \<open>onRegister\<close> together with
  the local operations that run while it is suspended at \<open>register\<close> and at
  \<open>addContact\<close>, and the two navigation methods.
\<close>

datatype Op =
    Local LocalOp
  | OnRegister "LocalOp list" "LocalOp list"
  | GoToAnotherPage jsstring
  | OnBackClick

fun step :: "'u Services \<Rightarrow> 'u System \<Rightarrow> Op \<Rightarrow> 'u System" where
  "step sv s (Local x) = s\<lparr>comp := applyOp (comp s) x\<rparr>"
| "step sv s (OnRegister ops1 ops2) = onRegister sv (applyOps ops1) (applyOps ops2) s"
| "step sv s (GoToAnotherPage target) = goToAnotherPage target s"
| "step sv s OnBackClick = onBackClick s"

definition run :: "'u Services \<Rightarrow> 'u System \<Rightarrow> Op list \<Rightarrow> 'u System" where
  "run sv s ops = foldl (step sv) s ops"

text \<open>A system whose component has just been constructed.\<close>

definition initialSystem :: "'u World \<Rightarrow> 'u System" where
  "initialSystem w = \<lparr>comp = initialComponent, world = w, calls = []\<rparr>"

section \<open>Notions used in the statements\<close>

text \<open>The calls made between a system \<open>s\<close> and a later system \<open>s'\<close>.\<close>

definition newCalls :: "'u System \<Rightarrow> 'u System \<Rightarrow> Call list" where
  "newCalls s s' = drop (length (calls s)) (calls s')"

fun isRegisterCall :: "Call \<Rightarrow> bool" where
  "isRegisterCall (CallRegister e p n) = True"
| "isRegisterCall k = False"

text \<open>
  The verdict of the most recent check of a field name: the \<open>condition\<close> of the latest
  call of \<open>addFieldIfInvalid\<close> for it, \<open>None\<close> when there has been none.
\<close>

definition lastCheck :: "SignupComponent \<Rightarrow> jsstring \<Rightarrow> bool option" where
  "lastCheck c f = map_of (checkLog c) f"

text \<open>\<open>c'\<close> has the form inputs, the checkbox and \<open>newUserData\<close> of \<open>c\<close>.\<close>

definition sameInputs :: "SignupComponent \<Rightarrow> SignupComponent \<Rightarrow> bool" where
  "sameInputs c c' \<longleftrightarrow>
     name c' = name c \<and> email c' = email c \<and> password c' = password c \<and>
     passwordConfirm c' = passwordConfirm c \<and> privacyAccepted c' = privacyAccepted c \<and>
     newUserData c' = newUserData c"

definition logAgrees :: "SignupComponent \<Rightarrow> bool" where
  "logAgrees c \<longleftrightarrow> (\<forall>f. f \<in> set (invalidFields c) \<longleftrightarrow> lastCheck c f = Some True)"

text \<open>
  Services for the examples: one set that always succeeds, one whose \<open>register\<close> throws,
  one whose \<open>getUsername\<close> throws. Where \<open>addContact\<close> succeeds it appends the record to
  the contact list.
\<close>

definition acceptingServices :: "jsstring Services" where
  "acceptingServices =
     \<lparr>register = (\<lambda>e p n w. (None, w)),
      addContact = (\<lambda>k w. (None, w\<lparr>contactList := contactList w @ [k]\<rparr>)),
      getUsername = (\<lambda>e w. Inr e)\<rparr>"

definition rejectingServices :: "jsstring Services" where
  "rejectingServices =
     \<lparr>register = (\<lambda>e p n w. (Some (Thrown (js ''email-already-in-use'')), w)),
      addContact = (\<lambda>k w. (None, w)),
      getUsername = (\<lambda>e w. Inr e)\<rparr>"

definition lookupFailingServices :: "jsstring Services" where
  "lookupFailingServices =
     \<lparr>register = (\<lambda>e p n w. (None, w)),
      addContact = (\<lambda>k w. (None, w\<lparr>contactList := contactList w @ [k]\<rparr>)),
      getUsername = (\<lambda>e w. Inl (Thrown (js ''user-not-found'')))\<rparr>"

definition emptyWorld :: "jsstring World" where
  "emptyWorld = \<lparr>contactList = [], UserLoggedIn = []\<rparr>"

definition filledComponent :: SignupComponent where
  "filledComponent =
     initialComponent\<lparr>name := js ''Ada'', email := js ''user@domain.tld'',
       password := js ''secret1'', passwordConfirm := js ''secret1''\<rparr>"

definition filledSystem :: "jsstring System" where
  "filledSystem = \<lparr>comp = filledComponent, world = emptyWorld, calls = []\<rparr>"

definition mismatchComponent :: SignupComponent where
  "mismatchComponent =
     initialComponent\<lparr>name := js ''Ada'', email := js ''user@domain.tld'',
       password := js ''secret1'', passwordConfirm := js ''secret2''\<rparr>"

definition mismatchSystem :: "jsstring System" where
  "mismatchSystem = \<lparr>comp = mismatchComponent, world = emptyWorld, calls = []\<rparr>"

definition shortEqualComponent :: SignupComponent where
  "shortEqualComponent = initialComponent\<lparr>password := js ''abc'', passwordConfirm := js ''abc''\<rparr>"

definition knownContact :: Contact where
  "knownContact =
     \<lparr>Contact.name = js ''Ada L'', Contact.email = js ''user@domain.tld'',
      Contact.phone = js ''0123''\<rparr>"

definition knownWorld :: "jsstring World" where
  "knownWorld = \<lparr>contactList = [knownContact], UserLoggedIn = []\<rparr>"

definition knownSystem :: "jsstring System" where
  "knownSystem = \<lparr>comp = filledComponent, world = knownWorld, calls = []\<rparr>"

text \<open>A write of the form to the email field while a call is pending, and no write.\<close>

definition retypeEmail :: "SignupComponent \<Rightarrow> SignupComponent" where
  "retypeEmail = applyOps [InputEmail (js ''other@domain.tld'')]"

definition untouched :: "SignupComponent \<Rightarrow> SignupComponent" where
  "untouched = applyOps []"

definition checkedOps :: "Op list" where
  "checkedOps =
     [Local (InputEmail (js ''user@domain'')), Local (ValidateForm (js ''email'')),
      OnRegister [InputEmail (js ''user@domain.tld'')] [ValidateForm (js ''name'')]]"

definition staleOps :: "Op list" where
  "staleOps =
     [Local (InputPassword (js ''secret1'')), Local (InputPasswordConfirm (js ''secret2'')),
      Local (ValidateForm (js ''confirmPassword'')), OnRegister [] [],
      Local (InputPassword (js ''secret2''))]"

section \<open>Facts about the field validators\<close>

lemma js_names [simp]:
  "js ''confirmPassword'' \<noteq> js ''password''" "js ''confirmPassword'' \<noteq> js ''name''"
  "js ''confirmPassword'' \<noteq> js ''email''" "js ''password'' \<noteq> js ''name''"
  "js ''password'' \<noteq> js ''email''" "js ''name'' \<noteq> js ''email''"
  "js ''password'' \<noteq> js ''confirmPassword''" "js ''name'' \<noteq> js ''confirmPassword''"
  "js ''email'' \<noteq> js ''confirmPassword''" "js ''name'' \<noteq> js ''password''"
  "js ''email'' \<noteq> js ''password''" "js ''email'' \<noteq> js ''name''"
  by (simp_all add: js_def)

lemma validateForm_confirmPassword:
  "validateForm (js ''confirmPassword'') c = autoValidatePrivacyIfReady (validateConfirmedPassword c)"
  by (simp add: validateForm.simps Let_def)

lemma validateForm_name:
  "validateForm (js ''name'') c = autoValidatePrivacyIfReady (validateName c)"
  by (simp add: validateForm.simps Let_def)

lemma validateForm_email:
  "validateForm (js ''email'') c = autoValidatePrivacyIfReady (validateMail c)"
  by (simp add: validateForm.simps Let_def)

lemma validateForm_password:
  "validateForm (js ''password'') c = autoValidatePrivacyIfReady (validatePassword c)"
  by (simp add: validateForm.simps Let_def)

lemma validateForm_other:
  "field \<noteq> js ''name'' \<Longrightarrow> field \<noteq> js ''email'' \<Longrightarrow> field \<noteq> js ''password'' \<Longrightarrow>
   field \<noteq> js ''confirmPassword'' \<Longrightarrow> validateForm field c = autoValidatePrivacyIfReady c"
  by (simp add: validateForm.simps Let_def)

lemma validatePassword_preserves:
  assumes add: "\<And>b f c. P c \<Longrightarrow> P (addFieldIfInvalid b f c)"
      and auto: "\<And>c. P c \<Longrightarrow> P (autoValidatePrivacyIfReady c)"
      and P: "P c"
  shows "P (validatePassword c)"
  using P add auto
  by (simp add: validatePassword.simps [of c] validateForm_confirmPassword
        validateConfirmedPassword_def Let_def)

lemma validateForm_preserves:
  assumes add: "\<And>b f c. P c \<Longrightarrow> P (addFieldIfInvalid b f c)"
      and auto: "\<And>c. P c \<Longrightarrow> P (autoValidatePrivacyIfReady c)"
      and P: "P c"
  shows "P (validateForm field c)"
proof -
  have pw: "P (validatePassword c)"
    using add auto P by (rule validatePassword_preserves)
  consider "field = js ''name''" | "field = js ''email''" | "field = js ''password''"
    | "field = js ''confirmPassword''"
    | "field \<noteq> js ''name''" "field \<noteq> js ''email''" "field \<noteq> js ''password''"
      "field \<noteq> js ''confirmPassword''"
    by blast
  then show ?thesis
  proof cases
    case 1
    then show ?thesis using add auto P by (simp add: validateForm_name validateName_def Let_def)
  next
    case 2
    then show ?thesis using add auto P by (simp add: validateForm_email validateMail_def Let_def)
  next
    case 3
    then show ?thesis using auto pw by (simp add: validateForm_password)
  next
    case 4
    then show ?thesis using add auto P
      by (simp add: validateForm_confirmPassword validateConfirmedPassword_def Let_def)
  next
    case 5
    then show ?thesis using auto P by (simp add: validateForm_other)
  qed
qed

lemma sameInputs_refl [simp]: "sameInputs c c"
  by (simp add: sameInputs_def)

lemma sameInputs_addFieldIfInvalid: "sameInputs c c' \<Longrightarrow> sameInputs c (addFieldIfInvalid b f c')"
  by (simp add: sameInputs_def addFieldIfInvalid_def Let_def)

lemma sameInputs_autoValidate: "sameInputs c c' \<Longrightarrow> sameInputs c (autoValidatePrivacyIfReady c')"
  by (simp add: sameInputs_def autoValidatePrivacyIfReady_def)

lemma sameInputs_validateForm: "sameInputs c (validateForm field c)"
  by (rule validateForm_preserves [where P = "sameInputs c"])
     (simp_all add: sameInputs_addFieldIfInvalid sameInputs_autoValidate)

lemma sameInputs_validatePassword: "sameInputs c (validatePassword c)"
  by (rule validatePassword_preserves [where P = "sameInputs c"])
     (simp_all add: sameInputs_addFieldIfInvalid sameInputs_autoValidate)

lemma isFormValid_sameInputs: "sameInputs c c' \<Longrightarrow> isFormValid c' = isFormValid c"
  by (simp add: sameInputs_def isFormValid_def isEmailValid_def)

lemma logAgrees_addFieldIfInvalid: "logAgrees c \<Longrightarrow> logAgrees (addFieldIfInvalid b f c)"
  by (auto simp add: logAgrees_def lastCheck_def addFieldIfInvalid_def Let_def)

lemma logAgrees_autoValidate: "logAgrees c \<Longrightarrow> logAgrees (autoValidatePrivacyIfReady c)"
  by (simp add: logAgrees_def lastCheck_def autoValidatePrivacyIfReady_def)

lemma logAgrees_validateForm: "logAgrees c \<Longrightarrow> logAgrees (validateForm field c)"
  by (rule validateForm_preserves [where P = logAgrees])
     (simp_all add: logAgrees_addFieldIfInvalid logAgrees_autoValidate)


lemma invalidFields_autoValidate [simp]:
  "invalidFields (autoValidatePrivacyIfReady c) = invalidFields c"
  by (simp add: autoValidatePrivacyIfReady_def)

lemma set_invalidFields_addFieldIfInvalid:
  "set (invalidFields (addFieldIfInvalid b f c)) =
     (if b then insert f (set (invalidFields c)) else set (invalidFields c) - {f})"
  by (auto simp add: addFieldIfInvalid_def Let_def)

lemma showPrivacyError_autoValidate:
  "showPrivacyError (autoValidatePrivacyIfReady c) \<longleftrightarrow>
     invalidFields c = [] \<and> isFormValid c \<and> \<not> privacyAccepted c"
  by (simp add: autoValidatePrivacyIfReady_def)

lemma autoValidate_idem [simp]:
  "autoValidatePrivacyIfReady (autoValidatePrivacyIfReady c) = autoValidatePrivacyIfReady c"
  by (simp add: autoValidatePrivacyIfReady_def isFormValid_def isEmailValid_def)

lemma validateForm_ends_with_autoValidate:
  "autoValidatePrivacyIfReady (validateForm field c) = validateForm field c"
  by (simp add: validateForm.simps [of field c] Let_def)

lemma test_user_domain_tld: "test emailRegex (js ''user@domain.tld'')"
  by code_simp

lemma test_user_domain: "\<not> test emailRegex (js ''user@domain'')"
  by code_simp

lemma lower_trim_user_domain_tld:
  "toLowerCase (trim (js ''user@domain.tld'')) = js ''user@domain.tld''"
  by code_simp

lemma lower_trim_user_domain:
  "toLowerCase (trim (js ''user@domain'')) = js ''user@domain''"
  by code_simp

lemma js_user_domain_nonempty: "js ''user@domain.tld'' \<noteq> []" "js ''user@domain'' \<noteq> []"
  by (simp_all add: js_def)

section \<open>The confirmation field\<close>

text \<open>
  Claim C2, as amended. The claim reads: after \<open>validateForm('confirmPassword')\<close> the name
  \<open>'confirmPassword'\<close> is in \<open>invalidFields\<close> if and only if the confirmation is
  shorter than 6 characters or differs from the password. The validator
  \<open>validateConfirmedPassword\<close> compares the two fields and does not look at the length,
  so what holds is: after \<open>validateForm('confirmPassword')\<close>, whatever the component
  was, \<open>'confirmPassword'\<close> is in \<open>invalidFields\<close> if and only if the confirmation
  differs from the password.
\<close>

theorem validateForm_confirmPassword_iff_differs:
  "js ''confirmPassword'' \<in> set (invalidFields (validateForm (js ''confirmPassword'') c))
     \<longleftrightarrow> passwordConfirm c \<noteq> password c"
  by (simp add: validateForm_confirmPassword validateConfirmedPassword_def Let_def
        set_invalidFields_addFieldIfInvalid)

text \<open>An instance: the confirmation \<open>secret2\<close> against the password \<open>secret1\<close>.\<close>

theorem validateForm_confirmPassword_iff_differs_witness:
  "js ''confirmPassword'' \<in> set (invalidFields (validateForm (js ''confirmPassword'') mismatchComponent))
   \<and> passwordConfirm mismatchComponent \<noteq> password mismatchComponent"
  using validateForm_confirmPassword_iff_differs [of mismatchComponent]
  by (simp add: mismatchComponent_def initialComponent_def js_def)

text \<open>
  The claim as written fails when password and confirmation are both \<open>abc\<close>: the
  confirmation is shorter than 6 characters, and \<open>'confirmPassword'\<close> is not in
  \<open>invalidFields\<close> after the call.
\<close>

theorem validateForm_confirmPassword_short_counterexample:
  "\<not> (js ''confirmPassword'' \<in> set (invalidFields (validateForm (js ''confirmPassword'') shortEqualComponent))
       \<longleftrightarrow> (length (passwordConfirm shortEqualComponent) < 6
            \<or> passwordConfirm shortEqualComponent \<noteq> password shortEqualComponent))"
  unfolding validateForm_confirmPassword
  by (simp add: validateConfirmedPassword_def Let_def
        set_invalidFields_addFieldIfInvalid shortEqualComponent_def initialComponent_def js_def)

section \<open>The privacy error flag\<close>

text \<open>
  Claim C4. After \<open>validateForm\<close> on any field name, and after \<open>validatePrivacy\<close>,
  the flag \<open>showPrivacyError\<close> is true if and only if the invalid-field list is empty,
  the trimmed name has at least 2 characters, the email matches the pattern, password and
  confirmation have at least 6 characters each, and the privacy checkbox is unchecked.
\<close>

theorem showPrivacyError_after_validation:
  "(showPrivacyError (validateForm field c) \<longleftrightarrow>
      invalidFields (validateForm field c) = [] \<and>
      length (trim (name c)) \<ge> 2 \<and> test emailRegex (email c) \<and>
      length (password c) \<ge> 6 \<and> length (passwordConfirm c) \<ge> 6 \<and>
      \<not> privacyAccepted c) \<and>
   (showPrivacyError (validatePrivacy c) \<longleftrightarrow>
      invalidFields (validatePrivacy c) = [] \<and>
      length (trim (name c)) \<ge> 2 \<and> test emailRegex (email c) \<and>
      length (password c) \<ge> 6 \<and> length (passwordConfirm c) \<ge> 6 \<and>
      \<not> privacyAccepted c)"
proof
  let ?c' = "validateForm field c"
  have same: "sameInputs c ?c'" by (rule sameInputs_validateForm)
  have "showPrivacyError ?c' = showPrivacyError (autoValidatePrivacyIfReady ?c')"
    by (simp add: validateForm_ends_with_autoValidate)
  also have "\<dots> \<longleftrightarrow> invalidFields ?c' = [] \<and> isFormValid ?c' \<and> \<not> privacyAccepted ?c'"
    by (rule showPrivacyError_autoValidate)
  also have "\<dots> \<longleftrightarrow> invalidFields ?c' = [] \<and> isFormValid c \<and> \<not> privacyAccepted c"
    using same isFormValid_sameInputs [OF same] by (simp add: sameInputs_def)
  finally show "showPrivacyError ?c' \<longleftrightarrow>
      invalidFields ?c' = [] \<and>
      length (trim (name c)) \<ge> 2 \<and> test emailRegex (email c) \<and>
      length (password c) \<ge> 6 \<and> length (passwordConfirm c) \<ge> 6 \<and>
      \<not> privacyAccepted c"
    by (simp add: isFormValid_def isEmailValid_def)
next
  show "showPrivacyError (validatePrivacy c) \<longleftrightarrow>
      invalidFields (validatePrivacy c) = [] \<and>
      length (trim (name c)) \<ge> 2 \<and> test emailRegex (email c) \<and>
      length (password c) \<ge> 6 \<and> length (passwordConfirm c) \<ge> 6 \<and>
      \<not> privacyAccepted c"
    by (simp add: validatePrivacy_def autoValidatePrivacyIfReady_def isFormValid_def
          isEmailValid_def)
qed

text \<open>
  An instance: with all four inputs filled in and valid and the checkbox unchecked, the
  flag is raised after \<open>validateForm('name')\<close>; with the checkbox checked,
  \<open>validatePrivacy\<close> leaves it down.
\<close>

theorem showPrivacyError_after_validation_witness:
  "showPrivacyError (validateForm (js ''name'') filledComponent) \<and>
   invalidFields (validateForm (js ''name'') filledComponent) = [] \<and>
   \<not> privacyAccepted filledComponent \<and>
   \<not> showPrivacyError (validatePrivacy (filledComponent\<lparr>privacyAccepted := True\<rparr>))"
proof -
  have i: "invalidFields (validateForm (js ''name'') filledComponent) = []"
    by code_simp
  have n: "length (trim (name filledComponent)) \<ge> 2"
    by code_simp
  have e: "test emailRegex (email filledComponent)"
    by code_simp
  have p: "length (password filledComponent) \<ge> 6" "length (passwordConfirm filledComponent) \<ge> 6"
    "\<not> privacyAccepted filledComponent"
    by (simp_all add: filledComponent_def initialComponent_def js_def)
  show ?thesis
    using i n e p showPrivacyError_after_validation [of "js ''name''" filledComponent]
      showPrivacyError_after_validation [of "js ''name''" "filledComponent\<lparr>privacyAccepted := True\<rparr>"]
    by simp
qed

section \<open>The email pattern\<close>

text \<open>
  Claim C6. Whatever the rest of the component is, \<open>validateForm('email')\<close> leaves
  \<open>'email'\<close> out of \<open>invalidFields\<close> when the email is \<open>user@domain.tld\<close> and puts
  it in when the email is \<open>user@domain\<close>; the email conjunct of \<open>isFormValid\<close> is
  true for the former and false for the latter.
\<close>

theorem email_examples:
  "js ''email'' \<notin> set (invalidFields (validateForm (js ''email'') (c\<lparr>email := js ''user@domain.tld''\<rparr>)))
   \<and> js ''email'' \<in> set (invalidFields (validateForm (js ''email'') (c\<lparr>email := js ''user@domain''\<rparr>)))
   \<and> isEmailValid (c\<lparr>email := js ''user@domain.tld''\<rparr>)
   \<and> \<not> isEmailValid (c\<lparr>email := js ''user@domain''\<rparr>)"
  by (simp add: validateForm_email validateMail_def Let_def set_invalidFields_addFieldIfInvalid
        lower_trim_user_domain_tld lower_trim_user_domain test_user_domain_tld test_user_domain
        js_user_domain_nonempty isEmailValid_def)

text \<open>The same on a freshly constructed component.\<close>

theorem email_examples_witness:
  "js ''email'' \<notin> set (invalidFields (validateForm (js ''email'')
      (initialComponent\<lparr>email := js ''user@domain.tld''\<rparr>))) \<and>
   js ''email'' \<in> set (invalidFields (validateForm (js ''email'')
      (initialComponent\<lparr>email := js ''user@domain''\<rparr>)))"
  using email_examples [of initialComponent] by simp

section \<open>Facts about registration and runs\<close>

lemma comp_call [simp]: "comp (call k s) = comp s"
  by (simp add: call_def)

lemma world_call [simp]: "world (call k s) = world s"
  by (simp add: call_def)

lemma calls_call [simp]: "calls (call k s) = calls s @ [k]"
  by (simp add: call_def)

lemma comp_onRegister_try:
  "comp (snd (onRegister_try sv f1 f2 s)) = f1 (comp s) \<or>
   comp (snd (onRegister_try sv f1 f2 s)) = f2 (f1 (comp s))"
  by (simp add: onRegister_try_def Let_def split: prod.splits option.splits sum.splits)

lemma onRegister_preserves:
  assumes f1: "\<And>c. P c \<Longrightarrow> P (f1 c)"
      and f2: "\<And>c. P c \<Longrightarrow> P (f2 c)"
      and err: "\<And>c m. P c \<Longrightarrow> P (c\<lparr>error := m\<rparr>)"
      and P: "P (comp s)"
  shows "P (comp (onRegister sv f1 f2 s))"
proof (cases "password (comp s) = passwordConfirm (comp s)")
  case False
  then show ?thesis using P by (simp add: onRegister_def)
next
  case True
  obtain r s' where t: "onRegister_try sv f1 f2 s = (r, s')"
    by (cases "onRegister_try sv f1 f2 s")
  have "comp s' = f1 (comp s) \<or> comp s' = f2 (f1 (comp s))"
    using comp_onRegister_try [of sv f1 f2 s] t by simp
  then have "P (comp s')"
    using P f1 f2 by auto
  then show ?thesis
    using True t err by (cases r) (simp_all add: onRegister_def)
qed

lemma applyOps_Nil [simp]: "applyOps [] c = c"
  by (simp add: applyOps_def)

lemma applyOps_Cons [simp]: "applyOps (x # xs) c = applyOps xs (applyOp c x)"
  by (simp add: applyOps_def)

lemma applyOps_preserves:
  assumes "\<And>c x. P c \<Longrightarrow> P (applyOp c x)"
  shows "P c \<Longrightarrow> P (applyOps ops c)"
  by (induction ops arbitrary: c) (simp_all add: assms)

lemma logAgrees_error [simp]: "logAgrees (c\<lparr>error := m\<rparr>) = logAgrees c"
  by (simp add: logAgrees_def lastCheck_def)

lemma logAgrees_applyOp: "logAgrees c \<Longrightarrow> logAgrees (applyOp c x)"
proof (cases x)
  case (ValidateForm field)
  assume "logAgrees c"
  then show ?thesis
    using ValidateForm by (simp add: logAgrees_validateForm)
qed (simp_all add: logAgrees_autoValidate validatePrivacy_def,
     simp_all add: logAgrees_def lastCheck_def onPasswordInput_def
       togglePasswordVisibility_def closePrivacy_def Let_def)

lemma logAgrees_applyOps: "logAgrees c \<Longrightarrow> logAgrees (applyOps ops c)"
  by (rule applyOps_preserves [where P = logAgrees]) (simp_all add: logAgrees_applyOp)

lemma logAgrees_step: "logAgrees (comp s) \<Longrightarrow> logAgrees (comp (step sv s op))"
proof (cases op)
  case (OnRegister ops1 ops2)
  assume "logAgrees (comp s)"
  then have "logAgrees (comp (onRegister sv (applyOps ops1) (applyOps ops2) s))"
    by (intro onRegister_preserves [where P = logAgrees]) (simp_all add: logAgrees_applyOps)
  then show ?thesis
    using OnRegister by simp
qed (simp_all add: logAgrees_applyOp goToAnotherPage_def onBackClick_def)

lemma run_Nil [simp]: "run sv s [] = s"
  by (simp add: run_def)

lemma run_Cons [simp]: "run sv s (op # ops) = run sv (step sv s op) ops"
  by (simp add: run_def)

lemma logAgrees_run: "logAgrees (comp s) \<Longrightarrow> logAgrees (comp (run sv s ops))"
  by (induction ops arbitrary: s) (simp_all add: logAgrees_step)

lemma logAgrees_initial: "logAgrees (comp (initialSystem w))"
  by (simp add: logAgrees_def lastCheck_def initialSystem_def initialComponent_def)

lemma newUserData_applyOp: "newUserData (applyOp c x) = newUserData c"
proof (cases x)
  case (ValidateForm field)
  then show ?thesis
    using sameInputs_validateForm [of c field] by (simp add: sameInputs_def)
qed (simp_all add: autoValidatePrivacyIfReady_def validatePrivacy_def onPasswordInput_def
       togglePasswordVisibility_def closePrivacy_def Let_def)

lemma newUserData_applyOps: "newUserData (applyOps ops c) = newUserData c"
  by (induction ops arbitrary: c) (simp_all add: newUserData_applyOp)

lemma newUserData_step: "newUserData (comp (step sv s op)) = newUserData (comp s)"
proof (cases op)
  case (OnRegister ops1 ops2)
  have "newUserData (comp (onRegister sv (applyOps ops1) (applyOps ops2) s)) = newUserData (comp s)"
    by (rule onRegister_preserves [where P = "\<lambda>c. newUserData c = newUserData (comp s)"])
       (simp_all add: newUserData_applyOps)
  then show ?thesis
    using OnRegister by simp
qed (simp_all add: newUserData_applyOp goToAnotherPage_def onBackClick_def)

lemma newUserData_run: "newUserData (comp (run sv s ops)) = newUserData (comp s)"
  by (induction ops arbitrary: s) (simp_all add: newUserData_step)

lemma validatePassword_no_recheck:
  "confirmPassword (newUserData c) = [] \<Longrightarrow>
   validatePassword c =
     addFieldIfInvalid (password c = [] \<or> length (password c) < 6) (js ''password'') c"
  using sameInputs_addFieldIfInvalid [OF sameInputs_refl, of c _ "js ''password''"]
  by (simp add: validatePassword.simps [of c] Let_def sameInputs_def)

lemma newCalls_self [simp]: "newCalls s s = []"
  by (simp add: newCalls_def)

lemma calls_onRegister_try:
  "\<exists>rest. calls (snd (onRegister_try sv f1 f2 s)) =
      calls s @ CallRegister (email (comp s)) (password (comp s)) (name (comp s)) # rest"
  by (simp add: onRegister_try_def Let_def split: prod.splits option.splits sum.splits)

lemma calls_onRegister:
  "calls (onRegister sv f1 f2 s) = calls s @ newCalls s (onRegister sv f1 f2 s)"
proof (cases "onRegister_try sv f1 f2 s")
  case (Pair r s')
  obtain rest where "calls s' =
      calls s @ CallRegister (email (comp s)) (password (comp s)) (name (comp s)) # rest"
    using calls_onRegister_try [of sv f1 f2 s] Pair by auto
  with Pair show ?thesis
    by (auto simp add: onRegister_def newCalls_def split: option.splits)
qed

lemma onRegister_equal:
  "password (comp s) = passwordConfirm (comp s) \<Longrightarrow>
   \<exists>rest. newCalls s (onRegister sv f1 f2 s) =
      CallRegister (email (comp s)) (password (comp s)) (name (comp s)) # rest"
proof -
  assume eq: "password (comp s) = passwordConfirm (comp s)"
  obtain r s' where P: "onRegister_try sv f1 f2 s = (r, s')"
    by (cases "onRegister_try sv f1 f2 s")
  obtain rest where "calls s' =
      calls s @ CallRegister (email (comp s)) (password (comp s)) (name (comp s)) # rest"
    using calls_onRegister_try [of sv f1 f2 s] P by auto
  with P eq show ?thesis
    by (auto simp add: onRegister_def newCalls_def split: option.splits)
qed

lemma untouched_apply [simp]: "untouched c = c"
  by (simp add: untouched_def)

lemma retypeEmail_apply [simp]: "retypeEmail c = c\<lparr>email := js ''other@domain.tld''\<rparr>"
  by (simp add: retypeEmail_def)

lemmas example_defs =
  acceptingServices_def rejectingServices_def lookupFailingServices_def
  filledSystem_def filledComponent_def mismatchSystem_def mismatchComponent_def
  emptyWorld_def knownWorld_def knownContact_def knownSystem_def initialSystem_def
  initialComponent_def

section \<open>The invalid-field list over a run\<close>

text \<open>
  Claim C7. After any sequence of operations on a freshly constructed component, a field
  name is in \<open>invalidFields\<close> if and only if the most recent check made for that name
  reported it invalid; a name that has never been checked has no last check, and so is
  absent. The sequences include local operations that run while \<open>onRegister\<close> is
  suspended.
\<close>

theorem invalidFields_iff_lastCheck:
  "f \<in> set (invalidFields (comp (run sv (initialSystem w) ops))) \<longleftrightarrow>
     lastCheck (comp (run sv (initialSystem w) ops)) f = Some True"
  using logAgrees_run [OF logAgrees_initial, of sv w ops]
  by (simp add: logAgrees_def)

text \<open>
  An instance: the email \<open>user@domain\<close> is checked and found invalid; then
  \<open>onRegister\<close> runs, the email is corrected without a new check while \<open>register\<close> is
  pending, and \<open>validateForm('name')\<close> runs while \<open>addContact\<close> is pending. The name
  \<open>'email'\<close> is still listed, as its last check said; \<open>'password'\<close> was never
  checked and is absent.
\<close>

theorem invalidFields_iff_lastCheck_witness:
  "js ''email'' \<in> set (invalidFields (comp (run acceptingServices (initialSystem emptyWorld) checkedOps))) \<and>
   lastCheck (comp (run acceptingServices (initialSystem emptyWorld) checkedOps)) (js ''email'') = Some True \<and>
   js ''password'' \<notin> set (invalidFields (comp (run acceptingServices (initialSystem emptyWorld) checkedOps))) \<and>
   lastCheck (comp (run acceptingServices (initialSystem emptyWorld) checkedOps)) (js ''password'') = None"
proof -
  have a: "lastCheck (comp (run acceptingServices (initialSystem emptyWorld) checkedOps)) (js ''email'') = Some True"
    by code_simp
  have b: "lastCheck (comp (run acceptingServices (initialSystem emptyWorld) checkedOps)) (js ''password'') = None"
    by code_simp
  show ?thesis
    using a b
      invalidFields_iff_lastCheck [of "js ''email''" acceptingServices emptyWorld checkedOps]
      invalidFields_iff_lastCheck [of "js ''password''" acceptingServices emptyWorld checkedOps]
    by simp
qed

section \<open>The unused user-data object\<close>

text \<open>
  Claim C10. After any sequence of operations on a freshly constructed component,
  \<open>newUserData\<close> still has its initial value with four empty strings. So
  \<open>validatePassword\<close> does not take the branch that validates the confirmation again:
  it is the check of the password alone, and \<open>validateForm('password')\<close> does not change
  whether \<open>'confirmPassword'\<close> is in \<open>invalidFields\<close>.
\<close>

theorem newUserData_never_written:
  "newUserData (comp (run sv (initialSystem w) ops)) = emptyUserdata \<and>
   validatePassword (comp (run sv (initialSystem w) ops)) =
     addFieldIfInvalid
       (password (comp (run sv (initialSystem w) ops)) = [] \<or>
        length (password (comp (run sv (initialSystem w) ops))) < 6)
       (js ''password'') (comp (run sv (initialSystem w) ops)) \<and>
   (js ''confirmPassword'' \<in> set (invalidFields (validateForm (js ''password'')
        (comp (run sv (initialSystem w) ops)))) \<longleftrightarrow>
    js ''confirmPassword'' \<in> set (invalidFields (comp (run sv (initialSystem w) ops))))"
proof -
  let ?c = "comp (run sv (initialSystem w) ops)"
  have nud: "newUserData ?c = emptyUserdata"
    by (simp add: newUserData_run initialSystem_def initialComponent_def)
  then have e: "confirmPassword (newUserData ?c) = []"
    by (simp add: emptyUserdata_def)
  have vp: "validatePassword ?c =
      addFieldIfInvalid (password ?c = [] \<or> length (password ?c) < 6) (js ''password'') ?c"
    using e by (rule validatePassword_no_recheck)
  have "js ''confirmPassword'' \<in> set (invalidFields (validateForm (js ''password'') ?c)) \<longleftrightarrow>
      js ''confirmPassword'' \<in> set (invalidFields ?c)"
    by (simp add: validateForm_password vp set_invalidFields_addFieldIfInvalid)
  with nud vp show ?thesis by blast
qed

text \<open>
  An instance: the confirmation is checked while it differs from the password, then the
  password is changed to equal it. \<open>validateForm('password')\<close> leaves
  \<open>'confirmPassword'\<close> listed.
\<close>

theorem newUserData_never_written_witness:
  "newUserData (comp (run acceptingServices (initialSystem emptyWorld) staleOps)) = emptyUserdata \<and>
   password (comp (run acceptingServices (initialSystem emptyWorld) staleOps)) =
     passwordConfirm (comp (run acceptingServices (initialSystem emptyWorld) staleOps)) \<and>
   js ''confirmPassword'' \<in> set (invalidFields (validateForm (js ''password'')
        (comp (run acceptingServices (initialSystem emptyWorld) staleOps))))"
proof -
  have a: "js ''confirmPassword'' \<in> set (invalidFields
      (comp (run acceptingServices (initialSystem emptyWorld) staleOps)))"
    by code_simp
  have b: "password (comp (run acceptingServices (initialSystem emptyWorld) staleOps)) =
     passwordConfirm (comp (run acceptingServices (initialSystem emptyWorld) staleOps))"
    by code_simp
  show ?thesis
    using a b newUserData_never_written [of acceptingServices emptyWorld staleOps]
    by simp
qed

section \<open>Registration is attempted only with equal passwords\<close>

text \<open>
  Claim C1. \<open>onRegister\<close> only adds calls to those already made; a call of the Auth
  Service's \<open>register\<close> is among the added calls only when the password equals the
  confirmation; and when the two differ no call is added at all, whatever the other
  fields hold.
\<close>

theorem onRegister_only_when_equal:
  "calls (onRegister sv f1 f2 s) = calls s @ newCalls s (onRegister sv f1 f2 s) \<and>
   (k \<in> set (newCalls s (onRegister sv f1 f2 s)) \<and> isRegisterCall k \<longrightarrow>
      password (comp s) = passwordConfirm (comp s)) \<and>
   (password (comp s) \<noteq> passwordConfirm (comp s) \<longrightarrow> newCalls s (onRegister sv f1 f2 s) = [])"
proof (cases "password (comp s) = passwordConfirm (comp s)")
  case True
  then show ?thesis
    using calls_onRegister [of sv f1 f2 s] by simp
next
  case False
  then have "onRegister sv f1 f2 s = s"
    by (simp add: onRegister_def)
  then show ?thesis
    by simp
qed

text \<open>
  Two instances: with equal passwords \<open>register\<close> is called, and with the passwords
  \<open>secret1\<close> and \<open>secret2\<close> nothing is called although name and email are valid.
\<close>

theorem onRegister_only_when_equal_witness:
  "CallRegister (js ''user@domain.tld'') (js ''secret1'') (js ''Ada'')
     \<in> set (newCalls filledSystem (onRegister acceptingServices untouched untouched filledSystem)) \<and>
   password (comp filledSystem) = passwordConfirm (comp filledSystem) \<and>
   password (comp mismatchSystem) \<noteq> passwordConfirm (comp mismatchSystem) \<and>
   newCalls mismatchSystem (onRegister rejectingServices untouched untouched mismatchSystem) = []"
proof -
  have h1: "CallRegister (js ''user@domain.tld'') (js ''secret1'') (js ''Ada'')
     \<in> set (newCalls filledSystem (onRegister acceptingServices untouched untouched filledSystem))"
    using onRegister_equal [of filledSystem acceptingServices untouched untouched]
    by (auto simp add: example_defs)
  have h2: "password (comp mismatchSystem) \<noteq> passwordConfirm (comp mismatchSystem)"
    by (simp add: example_defs js_def)
  have "password (comp filledSystem) = passwordConfirm (comp filledSystem)"
    using h1 onRegister_only_when_equal
      [where sv = acceptingServices and s = filledSystem and ?f1.0 = untouched
         and ?f2.0 = untouched
         and k = "CallRegister (js ''user@domain.tld'') (js ''secret1'') (js ''Ada'')"]
    by simp
  moreover have "newCalls mismatchSystem
      (onRegister rejectingServices untouched untouched mismatchSystem) = []"
    using h2 onRegister_only_when_equal
      [where sv = rejectingServices and s = mismatchSystem and ?f1.0 = untouched
         and ?f2.0 = untouched]
    by simp
  ultimately show ?thesis
    using h1 h2 by simp
qed

section \<open>A thrown failure\<close>

text \<open>
  Claim C3. Let the passwords be equal. There are three ways for the Auth Service to throw
  an error \<open>e\<close> during \<open>onRegister\<close>: \<open>register\<close> throws; or \<open>register\<close> resolves, a
  contact with the email of the form exists, and \<open>getUsername\<close> throws; or \<open>register\<close>
  resolves, no such contact exists, \<open>addContact\<close> resolves, and \<open>getUsername\<close> throws.
  In each of them the component after \<open>onRegister\<close> is the component as it was when the
  error was thrown, with \<open>error\<close> set to the message of \<open>e\<close>; the services' data is as the
  last service call left it, so a contact that was written stays written and
  \<open>UserLoggedIn\<close> is not set; and the calls made are \<open>register\<close>, once, then
  \<open>addContact\<close> if the contact was written, then \<open>getUsername\<close> if it was reached, and
  nothing else: no navigation and no notice.
\<close>

theorem onRegister_failure:
  assumes eq: "password (comp s) = passwordConfirm (comp s)"
  shows
   "(register sv (email (comp s)) (password (comp s)) (name (comp s)) (world s) = (Some e, w1) \<longrightarrow>
       onRegister sv f1 f2 s =
         \<lparr>comp = (f1 (comp s))\<lparr>error := message e\<rparr>, world = w1,
          calls = calls s @
            [CallRegister (email (comp s)) (password (comp s)) (name (comp s))]\<rparr>) \<and>
    (register sv (email (comp s)) (password (comp s)) (name (comp s)) (world s) = (None, w1) \<and>
     (\<exists>k \<in> set (contactList w1). Contact.email k = email (f1 (comp s))) \<and>
     getUsername sv (email (f1 (comp s))) w1 = Inl e \<longrightarrow>
       onRegister sv f1 f2 s =
         \<lparr>comp = (f1 (comp s))\<lparr>error := message e\<rparr>, world = w1,
          calls = calls s @
            [CallRegister (email (comp s)) (password (comp s)) (name (comp s)),
             CallGetUsername (email (f1 (comp s)))]\<rparr>) \<and>
    (register sv (email (comp s)) (password (comp s)) (name (comp s)) (world s) = (None, w1) \<and>
     \<not> (\<exists>k \<in> set (contactList w1). Contact.email k = email (f1 (comp s))) \<and>
     addContact sv \<lparr>Contact.name = name (f1 (comp s)), Contact.email = email (f1 (comp s)),
                    Contact.phone = js ''Not existing yet''\<rparr> w1 = (None, w2) \<and>
     getUsername sv (email (f2 (f1 (comp s)))) w2 = Inl e \<longrightarrow>
       onRegister sv f1 f2 s =
         \<lparr>comp = (f2 (f1 (comp s)))\<lparr>error := message e\<rparr>, world = w2,
          calls = calls s @
            [CallRegister (email (comp s)) (password (comp s)) (name (comp s)),
             CallAddContact \<lparr>Contact.name = name (f1 (comp s)),
                             Contact.email = email (f1 (comp s)),
                             Contact.phone = js ''Not existing yet''\<rparr>,
             CallGetUsername (email (f2 (f1 (comp s))))]\<rparr>)"
  using eq
  by (cases s)
     (simp add: onRegister_def onRegister_try_def Let_def call_def
        checkIfMailinUseInContact_def list_ex_iff)

text \<open>
  Three instances, one for each way. In the first the form rewrites the email while
  \<open>register\<close> is pending, and the rewritten email stays.
\<close>

theorem onRegister_failure_witness:
  "onRegister rejectingServices retypeEmail untouched filledSystem =
     \<lparr>comp = filledComponent\<lparr>email := js ''other@domain.tld'',
                               error := js ''email-already-in-use''\<rparr>,
      world = emptyWorld,
      calls = [CallRegister (js ''user@domain.tld'') (js ''secret1'') (js ''Ada'')]\<rparr> \<and>
   onRegister lookupFailingServices untouched untouched knownSystem =
     \<lparr>comp = filledComponent\<lparr>error := js ''user-not-found''\<rparr>,
      world = knownWorld,
      calls = [CallRegister (js ''user@domain.tld'') (js ''secret1'') (js ''Ada''),
               CallGetUsername (js ''user@domain.tld'')]\<rparr> \<and>
   onRegister lookupFailingServices untouched untouched filledSystem =
     \<lparr>comp = filledComponent\<lparr>error := js ''user-not-found''\<rparr>,
      world = \<lparr>contactList = [\<lparr>Contact.name = js ''Ada'', Contact.email = js ''user@domain.tld'',
                                Contact.phone = js ''Not existing yet''\<rparr>],
               UserLoggedIn = []\<rparr>,
      calls = [CallRegister (js ''user@domain.tld'') (js ''secret1'') (js ''Ada''),
               CallAddContact \<lparr>Contact.name = js ''Ada'', Contact.email = js ''user@domain.tld'',
                               Contact.phone = js ''Not existing yet''\<rparr>,
               CallGetUsername (js ''user@domain.tld'')]\<rparr>"
proof -
  have eq1: "password (comp filledSystem) = passwordConfirm (comp filledSystem)"
    by (simp add: example_defs)
  have eq2: "password (comp knownSystem) = passwordConfirm (comp knownSystem)"
    by (simp add: example_defs)
  have v: "comp filledSystem = filledComponent" "comp knownSystem = filledComponent"
    "world filledSystem = emptyWorld" "world knownSystem = knownWorld"
    "calls filledSystem = []" "calls knownSystem = []"
    by (simp_all add: filledSystem_def knownSystem_def)
  have f: "name filledComponent = js ''Ada''" "email filledComponent = js ''user@domain.tld''"
    "password filledComponent = js ''secret1''"
    by (simp_all add: filledComponent_def)
  have a: "onRegister rejectingServices retypeEmail untouched filledSystem =
     \<lparr>comp = filledComponent\<lparr>email := js ''other@domain.tld'',
                               error := js ''email-already-in-use''\<rparr>,
      world = emptyWorld,
      calls = [CallRegister (js ''user@domain.tld'') (js ''secret1'') (js ''Ada'')]\<rparr>"
    using onRegister_failure [OF eq1, where sv = rejectingServices and ?f1.0 = retypeEmail
        and ?f2.0 = untouched and e = "Thrown (js ''email-already-in-use'')" and ?w1.0 = emptyWorld]
    by (simp add: v f rejectingServices_def)
  have b: "onRegister lookupFailingServices untouched untouched knownSystem =
     \<lparr>comp = filledComponent\<lparr>error := js ''user-not-found''\<rparr>,
      world = knownWorld,
      calls = [CallRegister (js ''user@domain.tld'') (js ''secret1'') (js ''Ada''),
               CallGetUsername (js ''user@domain.tld'')]\<rparr>"
    using onRegister_failure [OF eq2, where sv = lookupFailingServices and ?f1.0 = untouched
        and ?f2.0 = untouched and e = "Thrown (js ''user-not-found'')" and ?w1.0 = knownWorld]
    by (simp add: v f lookupFailingServices_def knownWorld_def knownContact_def)
  have c: "onRegister lookupFailingServices untouched untouched filledSystem =
     \<lparr>comp = filledComponent\<lparr>error := js ''user-not-found''\<rparr>,
      world = \<lparr>contactList = [\<lparr>Contact.name = js ''Ada'', Contact.email = js ''user@domain.tld'',
                                Contact.phone = js ''Not existing yet''\<rparr>],
               UserLoggedIn = []\<rparr>,
      calls = [CallRegister (js ''user@domain.tld'') (js ''secret1'') (js ''Ada''),
               CallAddContact \<lparr>Contact.name = js ''Ada'', Contact.email = js ''user@domain.tld'',
                               Contact.phone = js ''Not existing yet''\<rparr>,
               CallGetUsername (js ''user@domain.tld'')]\<rparr>"
    using onRegister_failure [OF eq1, where sv = lookupFailingServices and ?f1.0 = untouched
        and ?f2.0 = untouched and e = "Thrown (js ''user-not-found'')" and ?w1.0 = emptyWorld
        and ?w2.0 = "\<lparr>contactList = [\<lparr>Contact.name = js ''Ada'',
              Contact.email = js ''user@domain.tld'',
              Contact.phone = js ''Not existing yet''\<rparr>], UserLoggedIn = []\<rparr>"]
    by (simp add: v f lookupFailingServices_def emptyWorld_def)
  from a b c show ?thesis by simp
qed

section \<open>The contact write\<close>

text \<open>
  Claim C5. Let the passwords be equal and \<open>register\<close> resolve. The entered name and
  email are those of the form when \<open>register\<close> has resolved, and the contact list is
  read at the same moment. If some contact of the list has the entered email and
  \<open>getUsername\<close> returns, there is no \<open>addContact\<close>: the calls are \<open>register\<close>,
  \<open>getUsername\<close>, the navigation to \<open>/login\<close> and the notice, and the services' data is
  as \<open>register\<close> left it, with \<open>UserLoggedIn\<close> set. If no contact has the entered email,
  \<open>addContact\<close> resolves and \<open>getUsername\<close> returns, then \<open>addContact\<close> is called and
  applied exactly once, between \<open>register\<close> and \<open>getUsername\<close>, with the record made of
  the entered name, the entered email and the phone \<open>'Not existing yet'\<close>, and the
  services' data is what \<open>addContact\<close> made of it, with \<open>UserLoggedIn\<close> set.
\<close>

theorem onRegister_contact_write:
  assumes eq: "password (comp s) = passwordConfirm (comp s)"
      and reg: "register sv (email (comp s)) (password (comp s)) (name (comp s)) (world s) = (None, w1)"
  shows
   "((\<exists>k \<in> set (contactList w1). Contact.email k = email (f1 (comp s))) \<and>
     getUsername sv (email (f1 (comp s))) w1 = Inr u \<longrightarrow>
       onRegister sv f1 f2 s =
         \<lparr>comp = f1 (comp s), world = w1\<lparr>UserLoggedIn := u\<rparr>,
          calls = calls s @
            [CallRegister (email (comp s)) (password (comp s)) (name (comp s)),
             CallGetUsername (email (f1 (comp s))),
             Navigate [js ''/login''], ShowFeedback (js ''Registration successful'')]\<rparr>) \<and>
    (\<not> (\<exists>k \<in> set (contactList w1). Contact.email k = email (f1 (comp s))) \<and>
     addContact sv \<lparr>Contact.name = name (f1 (comp s)), Contact.email = email (f1 (comp s)),
                    Contact.phone = js ''Not existing yet''\<rparr> w1 = (None, w2) \<and>
     getUsername sv (email (f2 (f1 (comp s)))) w2 = Inr u \<longrightarrow>
       onRegister sv f1 f2 s =
         \<lparr>comp = f2 (f1 (comp s)), world = w2\<lparr>UserLoggedIn := u\<rparr>,
          calls = calls s @
            [CallRegister (email (comp s)) (password (comp s)) (name (comp s)),
             CallAddContact \<lparr>Contact.name = name (f1 (comp s)),
                             Contact.email = email (f1 (comp s)),
                             Contact.phone = js ''Not existing yet''\<rparr>,
             CallGetUsername (email (f2 (f1 (comp s)))),
             Navigate [js ''/login''], ShowFeedback (js ''Registration successful'')]\<rparr>)"
  using eq reg
  by (cases s)
     (simp add: onRegister_def onRegister_try_def Let_def call_def
        checkIfMailinUseInContact_def list_ex_iff)

text \<open>
  Two instances. With an empty contact list the contact is written and is in the list
  afterwards; the form rewrote the email while \<open>register\<close> was pending, so the record
  carries the rewritten email. With a contact list that holds the entered email nothing
  is written.
\<close>

theorem onRegister_contact_write_witness:
  "onRegister acceptingServices retypeEmail untouched filledSystem =
     \<lparr>comp = filledComponent\<lparr>email := js ''other@domain.tld''\<rparr>,
      world = \<lparr>contactList = [\<lparr>Contact.name = js ''Ada'', Contact.email = js ''other@domain.tld'',
                                Contact.phone = js ''Not existing yet''\<rparr>],
               UserLoggedIn = js ''other@domain.tld''\<rparr>,
      calls = [CallRegister (js ''user@domain.tld'') (js ''secret1'') (js ''Ada''),
               CallAddContact \<lparr>Contact.name = js ''Ada'', Contact.email = js ''other@domain.tld'',
                               Contact.phone = js ''Not existing yet''\<rparr>,
               CallGetUsername (js ''other@domain.tld''),
               Navigate [js ''/login''], ShowFeedback (js ''Registration successful'')]\<rparr> \<and>
   onRegister acceptingServices untouched untouched knownSystem =
     \<lparr>comp = filledComponent,
      world = \<lparr>contactList = [knownContact], UserLoggedIn = js ''user@domain.tld''\<rparr>,
      calls = [CallRegister (js ''user@domain.tld'') (js ''secret1'') (js ''Ada''),
               CallGetUsername (js ''user@domain.tld''),
               Navigate [js ''/login''], ShowFeedback (js ''Registration successful'')]\<rparr>"
proof -
  have eq1: "password (comp filledSystem) = passwordConfirm (comp filledSystem)"
    by (simp add: example_defs)
  have eq2: "password (comp knownSystem) = passwordConfirm (comp knownSystem)"
    by (simp add: example_defs)
  have reg1: "register acceptingServices (email (comp filledSystem)) (password (comp filledSystem))
      (name (comp filledSystem)) (world filledSystem) = (None, emptyWorld)"
    by (simp add: acceptingServices_def filledSystem_def)
  have reg2: "register acceptingServices (email (comp knownSystem)) (password (comp knownSystem))
      (name (comp knownSystem)) (world knownSystem) = (None, knownWorld)"
    by (simp add: acceptingServices_def knownSystem_def)
  have v: "comp filledSystem = filledComponent" "comp knownSystem = filledComponent"
    "calls filledSystem = []" "calls knownSystem = []"
    by (simp_all add: filledSystem_def knownSystem_def)
  have f: "name filledComponent = js ''Ada''" "email filledComponent = js ''user@domain.tld''"
    "password filledComponent = js ''secret1''"
    by (simp_all add: filledComponent_def)
  have a: "onRegister acceptingServices retypeEmail untouched filledSystem =
     \<lparr>comp = filledComponent\<lparr>email := js ''other@domain.tld''\<rparr>,
      world = \<lparr>contactList = [\<lparr>Contact.name = js ''Ada'', Contact.email = js ''other@domain.tld'',
                                Contact.phone = js ''Not existing yet''\<rparr>],
               UserLoggedIn = js ''other@domain.tld''\<rparr>,
      calls = [CallRegister (js ''user@domain.tld'') (js ''secret1'') (js ''Ada''),
               CallAddContact \<lparr>Contact.name = js ''Ada'', Contact.email = js ''other@domain.tld'',
                               Contact.phone = js ''Not existing yet''\<rparr>,
               CallGetUsername (js ''other@domain.tld''),
               Navigate [js ''/login''], ShowFeedback (js ''Registration successful'')]\<rparr>"
    using onRegister_contact_write [OF eq1 reg1, where ?f1.0 = retypeEmail and ?f2.0 = untouched
        and u = "js ''other@domain.tld''"
        and ?w2.0 = "\<lparr>contactList = [\<lparr>Contact.name = js ''Ada'',
              Contact.email = js ''other@domain.tld'',
              Contact.phone = js ''Not existing yet''\<rparr>], UserLoggedIn = []\<rparr>"]
    by (simp add: v f acceptingServices_def emptyWorld_def)
  have b: "onRegister acceptingServices untouched untouched knownSystem =
     \<lparr>comp = filledComponent,
      world = \<lparr>contactList = [knownContact], UserLoggedIn = js ''user@domain.tld''\<rparr>,
      calls = [CallRegister (js ''user@domain.tld'') (js ''secret1'') (js ''Ada''),
               CallGetUsername (js ''user@domain.tld''),
               Navigate [js ''/login''], ShowFeedback (js ''Registration successful'')]\<rparr>"
    using onRegister_contact_write [OF eq2 reg2, where ?f1.0 = untouched and ?f2.0 = untouched
        and u = "js ''user@domain.tld''"]
    by (simp add: v f acceptingServices_def knownWorld_def knownContact_def)
  from a b show ?thesis by simp
qed

section \<open>Registration without valid fields\<close>

text \<open>
  Claim C8. In a freshly constructed component the four inputs are empty strings, each
  conjunct of \<open>isFormValid\<close> is false, and password equals confirmation; \<open>onRegister\<close>
  then calls the Auth Service's \<open>register\<close> with the three empty strings, whatever the
  services do.
\<close>

theorem onRegister_all_fields_invalid:
  "\<not> length (trim (name initialComponent)) \<ge> 2 \<and> \<not> isEmailValid initialComponent \<and>
   \<not> length (password initialComponent) \<ge> 6 \<and> \<not> length (passwordConfirm initialComponent) \<ge> 6 \<and>
   name initialComponent = [] \<and> email initialComponent = [] \<and>
   password initialComponent = [] \<and> passwordConfirm initialComponent = [] \<and>
   (\<exists>rest. calls (onRegister sv f1 f2 (initialSystem w)) = CallRegister [] [] [] # rest)"
proof -
  have "\<exists>rest. newCalls (initialSystem w) (onRegister sv f1 f2 (initialSystem w)) =
      CallRegister [] [] [] # rest"
    using onRegister_equal [of "initialSystem w" sv f1 f2]
    by (simp add: initialSystem_def initialComponent_def)
  moreover have "calls (onRegister sv f1 f2 (initialSystem w)) =
      newCalls (initialSystem w) (onRegister sv f1 f2 (initialSystem w))"
    using calls_onRegister [of sv f1 f2 "initialSystem w"] by (simp add: initialSystem_def)
  moreover have "\<not> isEmailValid initialComponent"
    by (simp add: isEmailValid_def initialComponent_def emailRegex_def OneOrMore_def)
  ultimately show ?thesis
    by (simp add: initialComponent_def trim_def)
qed

theorem onRegister_all_fields_invalid_witness:
  "hd (calls (onRegister acceptingServices untouched untouched (initialSystem emptyWorld))) =
     CallRegister [] [] []"
  using onRegister_all_fields_invalid [of acceptingServices untouched untouched emptyWorld]
  by auto

section \<open>Unequal passwords\<close>

text \<open>
  Claim C9. When the password does not equal the confirmation, \<open>onRegister\<close> returns the
  system as it was: the component is unchanged, in particular its \<open>error\<close> string, the
  services' data is unchanged, and no call has been made.
\<close>

theorem onRegister_mismatch_noop:
  "password (comp s) \<noteq> passwordConfirm (comp s) \<Longrightarrow>
   onRegister sv f1 f2 s = s \<and> comp (onRegister sv f1 f2 s) = comp s \<and>
   error (comp (onRegister sv f1 f2 s)) = error (comp s) \<and>
   world (onRegister sv f1 f2 s) = world s \<and> calls (onRegister sv f1 f2 s) = calls s"
  by (simp add: onRegister_def)

theorem onRegister_mismatch_noop_witness:
  "password (comp mismatchSystem) \<noteq> passwordConfirm (comp mismatchSystem) \<and>
   onRegister acceptingServices retypeEmail untouched mismatchSystem = mismatchSystem"
proof -
  have h: "password (comp mismatchSystem) \<noteq> passwordConfirm (comp mismatchSystem)"
    by (simp add: example_defs js_def)
  then show ?thesis
    using onRegister_mismatch_noop [of mismatchSystem acceptingServices retypeEmail untouched]
    by simp
qed

end
